theory Spec2Isabelle
  imports Main "HOL-Library.Sublist"
begin

section \<open>SentinelAI dashboard: issue classification, explanation and result decoding\<close>

text \<open>
  The development embeds the decision logic of \<^verbatim>\<open>src/App.jsx\<close>: the lens filter
  \<^verbatim>\<open>getIssuesForFeature\<close>, the rationale lookup \<^verbatim>\<open>explainIssue\<close> and the state
  updates of \<^verbatim>\<open>analyzeFile\<close>.
\<close>

subsection \<open>JavaScript values\<close>

text \<open>
  The values that \<^verbatim>\<open>JSON.parse\<close> can produce, together with \<^verbatim>\<open>undefined\<close> (the result
  of reading a property that is not there). Numbers are restricted to integers; strings
  are ASCII text, one \<^typ>\<open>char\<close> per character. An object is the list of its
  (distinct) keys with their values.
\<close>

datatype jsval =
    JUndefined
  | JNull
  | JBool bool
  | JNum int
  | JStr string
  | JArr "jsval list"
  | JObj "(string \<times> jsval) list"

datatype error = TypeError

text \<open>The \<^verbatim>\<open>typeof\<close> operator.\<close>

fun typeof :: "jsval \<Rightarrow> string" where
  "typeof JUndefined = ''undefined''"
| "typeof JNull = ''object''"
| "typeof (JBool b) = ''boolean''"
| "typeof (JNum n) = ''number''"
| "typeof (JStr s) = ''string''"
| "typeof (JArr xs) = ''object''"
| "typeof (JObj kvs) = ''object''"

text \<open>\<^verbatim>\<open>Array.isArray\<close>.\<close>

fun isArray :: "jsval \<Rightarrow> bool" where
  "isArray (JArr xs) = True"
| "isArray v = False"

subsection \<open>String primitives\<close>

text \<open>
  \<^verbatim>\<open>String.prototype.toLowerCase\<close> on ASCII text: the letters A to Z (codes 65 to 90) move
  to a to z, every other character stays.
\<close>

definition lower_char :: "char \<Rightarrow> char" where
  "lower_char c =
     (let n = (of_char c :: nat) in if 65 \<le> n \<and> n \<le> 90 then char_of (n + 32) else c)"

definition toLowerCase :: "string \<Rightarrow> string" where
  "toLowerCase s = map lower_char s"

text \<open>
  \<^verbatim>\<open>String.prototype.includes\<close>: the search string is looked for at every start position
  of the text, from the left.
\<close>

fun startsWith :: "string \<Rightarrow> string \<Rightarrow> bool" where
  "startsWith s [] = True"
| "startsWith [] (c # w) = False"
| "startsWith (d # s) (c # w) = (d = c \<and> startsWith s w)"

fun includes_str :: "string \<Rightarrow> string \<Rightarrow> bool" where
  "includes_str [] w = startsWith [] w"
| "includes_str (c # s) w = (startsWith (c # s) w \<or> includes_str s w)"

text \<open>
  A method call \<^verbatim>\<open>i.toLowerCase()\<close> on an arbitrary value: only a string has the
  method; on \<^verbatim>\<open>null\<close>, \<^verbatim>\<open>undefined\<close> and every other value the call throws a TypeError.
\<close>

fun call_toLowerCase :: "jsval \<Rightarrow> error + string" where
  "call_toLowerCase (JStr s) = Inr (toLowerCase s)"
| "call_toLowerCase v = Inl TypeError"

text \<open>The test \<^verbatim>\<open>i.toLowerCase().includes(w)\<close>.\<close>

definition lowerIncludes :: "jsval \<Rightarrow> string \<Rightarrow> error + bool" where
  "lowerIncludes i w =
     (case call_toLowerCase i of Inl e \<Rightarrow> Inl e | Inr t \<Rightarrow> Inr (includes_str t w))"

subsection \<open>Array methods with a callback that may throw\<close>

text \<open>
  \<^verbatim>\<open>Array.prototype.some\<close> stops at the first element the callback accepts;
  \<^verbatim>\<open>Array.prototype.filter\<close> visits every element. An exception of the callback ends
  either of them.
\<close>

fun some :: "('a \<Rightarrow> error + bool) \<Rightarrow> 'a list \<Rightarrow> error + bool" where
  "some p [] = Inr False"
| "some p (x # xs) =
     (case p x of
        Inl e \<Rightarrow> Inl e
      | Inr b \<Rightarrow> if b then Inr True else some p xs)"

fun filter_arr :: "('a \<Rightarrow> error + bool) \<Rightarrow> 'a list \<Rightarrow> error + 'a list" where
  "filter_arr p [] = Inr []"
| "filter_arr p (x # xs) =
     (case p x of
        Inl e \<Rightarrow> Inl e
      | Inr b \<Rightarrow>
          (case filter_arr p xs of
             Inl e \<Rightarrow> Inl e
           | Inr ys \<Rightarrow> Inr (if b then x # ys else ys)))"

subsection \<open>The lens filter\<close>

text \<open>
  The score the filter reads: \<^verbatim>\<open>null\<close> (nothing analysed yet), \<^verbatim>\<open>undefined\<close> (a response
  without the field) or an integer. The comparison \<^verbatim>\<open>score <= 35\<close> converts its left
  side to a number: \<^verbatim>\<open>null\<close> becomes 0 and \<^verbatim>\<open>undefined\<close> becomes NaN, which compares
  false.
\<close>

datatype score_val = ScoreNull | ScoreUndefined | ScoreNum int

fun score_le :: "score_val \<Rightarrow> int \<Rightarrow> bool" where
  "score_le ScoreNull k = (0 \<le> k)"
| "score_le ScoreUndefined k = False"
| "score_le (ScoreNum n) k = (n \<le> k)"

definition security_words :: "string list" where
  "security_words = [''secret'', ''eval'', ''exec'', ''insecure'']"

definition security_override :: string where
  "security_override =
     ''Potential security vulnerability detected due to unsafe coding patterns''"

definition complexity_fallback :: string where
  "complexity_fallback = ''High cyclomatic complexity detected''"

definition dependency_stub :: string where
  "dependency_stub = ''Unused or risky dependency detected''"

definition refactor_stub :: string where
  "refactor_stub = ''Code can be refactored to improve readability''"

text \<open>
  \<^verbatim>\<open>getIssuesForFeature\<close>, with the two pieces of component state it reads passed in.
  The guard on the first line returns before the \<^verbatim>\<open>switch\<close>; the \<^verbatim>\<open>switch\<close> compares
  the feature with each label by strict equality, in the order of the source.
\<close>

definition getIssuesForFeature :: "jsval \<Rightarrow> score_val \<Rightarrow> string \<Rightarrow> error + jsval list" where
  "getIssuesForFeature issues score feature =
     (case issues of
        JArr xs \<Rightarrow>
          if xs = [] then Inr []
          else
            let safeIssues = filter (\<lambda>i. typeof i = ''string'') xs in
            if feature = ''security'' then
              if score \<noteq> ScoreNull \<and> score_le score 35 then
                Inr [JStr security_override]
              else
                filter_arr (\<lambda>i. some (\<lambda>w. lowerIncludes i w) security_words) safeIssues
            else if feature = ''complexity'' then
              (case some (\<lambda>i. lowerIncludes i ''complex'') safeIssues of
                 Inl e \<Rightarrow> Inl e
               | Inr b \<Rightarrow>
                   if b then filter_arr (\<lambda>i. lowerIncludes i ''complex'') safeIssues
                   else Inr [JStr complexity_fallback])
            else if feature = ''dependency'' then Inr [JStr dependency_stub]
            else if feature = ''refactor'' then Inr [JStr refactor_stub]
            else Inr []
      | _ \<Rightarrow> Inr [])"

subsection \<open>The explanation helper\<close>

text \<open>\<^verbatim>\<open>explainIssue\<close>: the text is lowered once, then the tests run in source order.\<close>

definition explainIssue :: "jsval \<Rightarrow> error + string" where
  "explainIssue issue =
     (case call_toLowerCase issue of
        Inl e \<Rightarrow> Inl e
      | Inr text \<Rightarrow>
          if includes_str text ''eval'' \<or> includes_str text ''exec'' then
            Inr ''This allows execution of arbitrary code and can be exploited by attackers.''
          else if includes_str text ''secret'' \<or> includes_str text ''password'' \<or> includes_str text ''token'' then
            Inr ''Hardcoded secrets can leak credentials and should be stored securely.''
          else if includes_str text ''complex'' then
            Inr ''High complexity makes code harder to understand, test, and maintain.''
          else if includes_str text ''dependency'' then
            Inr ''Unused or risky dependencies increase attack surface and maintenance cost.''
          else if includes_str text ''refactor'' then
            Inr ''Refactoring improves readability and long-term maintainability.''
          else
            Inr ''This issue may negatively affect security or code quality.'')"

subsection \<open>The component state and the backend call\<close>

text \<open>
  The \<^verbatim>\<open>useState\<close> cells of the component, and the notices shown by \<^verbatim>\<open>alert\<close> in the
  order they were raised. \<open>file_sel\<close> (the cell \<^verbatim>\<open>file\<close>) holds the name of the selected file, or \<open>None\<close> while
  nothing is selected; \<open>activeFeature\<close> is \<open>None\<close> for \<^verbatim>\<open>null\<close>.
\<close>

record app_state =
  file_sel :: "string option"
  score :: jsval
  issues :: jsval
  activeFeature :: "string option"
  loading :: bool
  alerts :: "string list"

text \<open>The initial values of the \<^verbatim>\<open>useState\<close> calls.\<close>

definition initial_state :: app_state where
  "initial_state =
     \<lparr>file_sel = None, score = JNull, issues = JArr [], activeFeature = None,
      loading = False, alerts = []\<rparr>"

definition alert :: "string \<Rightarrow> app_state \<Rightarrow> app_state" where
  "alert msg st = st\<lparr>alerts := alerts st @ [msg]\<rparr>"

text \<open>
  What the two awaited calls can deliver: \<^verbatim>\<open>fetch\<close> rejects, or \<^verbatim>\<open>res.json()\<close> rejects
  because the body is not JSON, or the body parses to a value.
\<close>

datatype response = FetchRejected | JsonRejected | Json jsval

text \<open>
  The property reads \<^verbatim>\<open>data.score\<close> and \<^verbatim>\<open>data.issues\<close>. Reading a property of
  \<^verbatim>\<open>null\<close> or \<^verbatim>\<open>undefined\<close> throws; an object gives the value stored under the key, or
  \<^verbatim>\<open>undefined\<close> without one; a boolean, a number, a string and an array have neither
  property, so the read gives \<^verbatim>\<open>undefined\<close>.
\<close>

fun getField :: "jsval \<Rightarrow> string \<Rightarrow> error + jsval" where
  "getField JUndefined k = Inl TypeError"
| "getField JNull k = Inl TypeError"
| "getField (JObj kvs) k = Inr (case map_of kvs k of None \<Rightarrow> JUndefined | Some v \<Rightarrow> v)"
| "getField v k = Inr JUndefined"

definition backend_notice :: string where
  "backend_notice = ''Backend not reachable. Ensure FastAPI is running on port 8000.''"

text \<open>
  The four setters that run before the request is made (lines 25 to 28): the state in
  which \<^verbatim>\<open>fetch\<close> is called.
\<close>

definition request_state :: "app_state \<Rightarrow> app_state" where
  "request_state st = st\<lparr>loading := True, issues := JArr [], activeFeature := None, score := JNull\<rparr>"

text \<open>
  The body of the \<^verbatim>\<open>try\<close> with its \<^verbatim>\<open>catch\<close>. \<^verbatim>\<open>setScore\<close> has already run when
  \<^verbatim>\<open>data.issues\<close> is read.
\<close>

definition try_response :: "app_state \<Rightarrow> response \<Rightarrow> app_state" where
  "try_response st r =
     (case r of
        FetchRejected \<Rightarrow> alert backend_notice st
      | JsonRejected \<Rightarrow> alert backend_notice st
      | Json data \<Rightarrow>
          (case getField data ''score'' of
             Inl e \<Rightarrow> alert backend_notice st
           | Inr s \<Rightarrow>
               (case getField data ''issues'' of
                  Inl e \<Rightarrow> alert backend_notice (st\<lparr>score := s\<rparr>)
                | Inr i \<Rightarrow> st\<lparr>score := s, issues := (if isArray i then i else JArr [])\<rparr>)))"

text \<open>\<^verbatim>\<open>analyzeFile\<close>: the guard on the file, the clearing, the request, and the \<^verbatim>\<open>finally\<close>.\<close>

definition analyzeFile :: "app_state \<Rightarrow> response \<Rightarrow> app_state" where
  "analyzeFile st r =
     (case file_sel st of
        None \<Rightarrow> alert ''Please select a Python file first'' st
      | Some f \<Rightarrow> (try_response (request_state st) r)\<lparr>loading := False\<rparr>)"

subsection \<open>The specification's vocabulary\<close>

text \<open>
  Sanitization as the specification words it: every element that is not a string is
  dropped, the strings stay in their order.
\<close>

fun sanitized :: "jsval list \<Rightarrow> string list" where
  "sanitized [] = []"
| "sanitized (JStr s # xs) = s # sanitized xs"
| "sanitized (v # xs) = sanitized xs"

text \<open>
  The case-insensitive substring test: the keyword occurs as a contiguous piece of the
  lowercase text.
\<close>

definition contains_ci :: "string \<Rightarrow> string \<Rightarrow> bool" where
  "contains_ci s w = sublist w (toLowerCase s)"

text \<open>
  The ordered rule table of the explanation engine, each row a set of keywords with its
  explanation, and the lookup the specification describes: the first row with a keyword
  in the text wins, and the generic fallback answers when no row matches.
\<close>

definition explain_rules :: "(string list \<times> string) list" where
  "explain_rules =
     [([''eval'', ''exec''],
       ''This allows execution of arbitrary code and can be exploited by attackers.''),
      ([''secret'', ''password'', ''token''],
       ''Hardcoded secrets can leak credentials and should be stored securely.''),
      ([''complex''],
       ''High complexity makes code harder to understand, test, and maintain.''),
      ([''dependency''],
       ''Unused or risky dependencies increase attack surface and maintenance cost.''),
      ([''refactor''],
       ''Refactoring improves readability and long-term maintainability.'')]"

definition explain_fallback :: string where
  "explain_fallback = ''This issue may negatively affect security or code quality.''"

definition explain_spec :: "string \<Rightarrow> string" where
  "explain_spec s =
     (case find (\<lambda>row. list_ex (contains_ci s) (fst row)) explain_rules of
        Some row \<Rightarrow> snd row
      | None \<Rightarrow> explain_fallback)"

text \<open>
  A state with a selected file and the results of an earlier analysis on display, used
  to run the backend call on a concrete input.
\<close>

definition sample_state :: app_state where
  "sample_state =
     \<lparr>file_sel = Some ''app.py'', score = JNum 80, issues = JArr [JStr ''eval() used''],
      activeFeature = Some ''security'', loading = False, alerts = []\<rparr>"

section \<open>Properties\<close>

subsection \<open>Auxiliary facts\<close>

lemma startsWith_prefix: "startsWith s w = prefix w s"
  by (induction s w rule: startsWith.induct) auto

lemma includes_str_sublist: "includes_str s w = sublist w s"
  by (induction s) (simp_all add: startsWith_prefix sublist_Cons_right)

lemma safe_issues_sanitized:
  "filter (\<lambda>i. typeof i = ''string'') xs = map JStr (sanitized xs)"
  by (induction xs rule: sanitized.induct) simp_all

lemma lowerIncludes_JStr: "lowerIncludes (JStr s) w = Inr (contains_ci s w)"
  by (simp add: lowerIncludes_def contains_ci_def includes_str_sublist)

lemma some_JStr:
  "(\<And>s. p (JStr s) = Inr (q s)) \<Longrightarrow> some p (map JStr ss) = Inr (list_ex q ss)"
  by (induction ss) simp_all

lemma filter_arr_JStr:
  "(\<And>s. p (JStr s) = Inr (q s)) \<Longrightarrow> filter_arr p (map JStr ss) = Inr (map JStr (filter q ss))"
  by (induction ss) simp_all

lemma some_words: "some (\<lambda>w. lowerIncludes (JStr s) w) ws = Inr (list_ex (contains_ci s) ws)"
  by (induction ws) (simp_all add: lowerIncludes_JStr)

text \<open>
  On a non-empty array every callback of the two filtering lenses is applied to strings
  only, so neither lens can throw, and both have a closed form over the sanitized list.
\<close>

lemma security_closed:
  "xs \<noteq> [] \<Longrightarrow> \<not> (sc \<noteq> ScoreNull \<and> score_le sc 35) \<Longrightarrow>
   getIssuesForFeature (JArr xs) sc ''security'' =
     Inr (map JStr (filter (\<lambda>s. list_ex (contains_ci s) security_words) (sanitized xs)))"
  using filter_arr_JStr [of "\<lambda>i. some (\<lambda>w. lowerIncludes i w) security_words"
      "\<lambda>s. list_ex (contains_ci s) security_words" "sanitized xs"]
  by (auto simp: getIssuesForFeature_def safe_issues_sanitized some_words)

lemma complexity_closed:
  assumes "xs \<noteq> []"
  shows "getIssuesForFeature (JArr xs) sc ''complexity'' =
           Inr (if filter (\<lambda>s. contains_ci s ''complex'') (sanitized xs) = []
                then [JStr complexity_fallback]
                else map JStr (filter (\<lambda>s. contains_ci s ''complex'') (sanitized xs)))"
proof -
  let ?q = "\<lambda>s. contains_ci s ''complex''"
  have s: "some (\<lambda>i. lowerIncludes i ''complex'') (map JStr (sanitized xs)) =
             Inr (list_ex ?q (sanitized xs))"
    by (rule some_JStr) (simp add: lowerIncludes_JStr)
  have f: "filter_arr (\<lambda>i. lowerIncludes i ''complex'') (map JStr (sanitized xs)) =
             Inr (map JStr (filter ?q (sanitized xs)))"
    by (rule filter_arr_JStr) (simp add: lowerIncludes_JStr)
  have e: "list_ex ?q (sanitized xs) = (filter ?q (sanitized xs) \<noteq> [])"
    by (simp add: list_ex_iff filter_empty_conv)
  show ?thesis
    using assms by (simp add: getIssuesForFeature_def safe_issues_sanitized s f e)
qed

lemma sanitized_subseq: "subseq (map JStr (filter q (sanitized xs))) xs"
  by (induction xs rule: sanitized.induct) auto

lemma all_strings: "list_all (\<lambda>y. typeof y = ''string'') (map JStr ss)"
  by (simp add: list_all_iff)

subsection \<open>The security lens at a low score\<close>

text \<open>
  C1 (amended). For every integer score of at most 35 and every non-empty issues array,
  whatever its entries, the security lens returns exactly one element, the fixed message
  "Potential security vulnerability detected due to unsafe coding patterns".
\<close>

theorem security_low_score_override:
  assumes "xs \<noteq> []" and "n \<le> 35"
  shows "getIssuesForFeature (JArr xs) (ScoreNum n) ''security'' =
           Inr [JStr ''Potential security vulnerability detected due to unsafe coding patterns'']"
  using assms by (simp add: getIssuesForFeature_def security_override_def)

theorem security_low_score_override_witness:
  "getIssuesForFeature (JArr [JNull, JStr ''eval() used'']) (ScoreNum 20) ''security'' =
     Inr [JStr ''Potential security vulnerability detected due to unsafe coding patterns'']"
  using security_low_score_override [of "[JNull, JStr ''eval() used'']" 20] by simp

text \<open>
  With the empty issues array the guard on the first line of the filter answers before
  the score is looked at: at score 10 the security lens returns the empty sequence, not
  the override message.
\<close>

theorem security_low_score_empty_issues:
  "getIssuesForFeature (JArr []) (ScoreNum 10) ''security'' \<noteq>
     Inr [JStr ''Potential security vulnerability detected due to unsafe coding patterns'']"
  by (simp add: getIssuesForFeature_def)

subsection \<open>The dependency and refactor lenses\<close>

text \<open>
  C2 (amended). For every non-empty issues array and every score, the dependency lens
  returns exactly ["Unused or risky dependency detected"] and the refactor lens returns
  exactly ["Code can be refactored to improve readability"].
\<close>

theorem stub_lenses:
  assumes "xs \<noteq> []"
  shows "getIssuesForFeature (JArr xs) sc ''dependency'' =
           Inr [JStr ''Unused or risky dependency detected'']
       \<and> getIssuesForFeature (JArr xs) sc ''refactor'' =
           Inr [JStr ''Code can be refactored to improve readability'']"
  using assms by (simp add: getIssuesForFeature_def dependency_stub_def refactor_stub_def)

theorem stub_lenses_witness:
  "getIssuesForFeature (JArr [JNum 7]) ScoreNull ''dependency'' =
     Inr [JStr ''Unused or risky dependency detected'']
   \<and> getIssuesForFeature (JArr [JNum 7]) ScoreNull ''refactor'' =
     Inr [JStr ''Code can be refactored to improve readability'']"
  using stub_lenses [of "[JNum 7]" ScoreNull] by simp

text \<open>
  On the empty issues array with a null score, both lenses return the empty sequence
  instead of their message.
\<close>

theorem stub_lenses_empty_issues:
  "getIssuesForFeature (JArr []) ScoreNull ''dependency'' \<noteq>
     Inr [JStr ''Unused or risky dependency detected'']
   \<and> getIssuesForFeature (JArr []) ScoreNull ''refactor'' \<noteq>
     Inr [JStr ''Code can be refactored to improve readability'']"
  by (simp add: getIssuesForFeature_def)

subsection \<open>The complexity lens\<close>

text \<open>
  C3 (amended). For every non-empty issues array and every score, the complexity lens
  returns the sanitized issues whose lowercase text contains "complex", in their order,
  and exactly ["High cyclomatic complexity detected"] when there is none; on a non-empty
  issues array it therefore never returns the empty sequence.
\<close>

theorem complexity_lens:
  assumes "xs \<noteq> []"
  shows "getIssuesForFeature (JArr xs) sc ''complexity'' =
           Inr (let matches = filter (\<lambda>s. contains_ci s ''complex'') (sanitized xs)
                in if matches = [] then [JStr ''High cyclomatic complexity detected'']
                   else map JStr matches)
       \<and> getIssuesForFeature (JArr xs) sc ''complexity'' \<noteq> Inr []"
  using assms complexity_closed [of xs sc]
  by (simp add: Let_def complexity_fallback_def)

theorem complexity_lens_witness:
  "getIssuesForFeature (JArr [JStr ''eval() used'', JNum 3, JStr ''Complex loop detected''])
       (ScoreNum 20) ''complexity''
     = Inr [JStr ''Complex loop detected'']
   \<and> getIssuesForFeature (JArr [JStr ''eval() used'']) ScoreNull ''complexity''
     = Inr [JStr ''High cyclomatic complexity detected'']"
proof -
  have a: "contains_ci ''Complex loop detected'' ''complex''"
    by code_simp
  have b: "\<not> contains_ci ''eval() used'' ''complex''"
    by code_simp
  show ?thesis
    using complexity_lens [of "[JStr ''eval() used'', JNum 3, JStr ''Complex loop detected'']" "ScoreNum 20"]
      complexity_lens [of "[JStr ''eval() used'']" ScoreNull] a b
    by simp
qed

text \<open>On the empty issues array the complexity lens does return the empty sequence.\<close>

theorem complexity_lens_empty_issues:
  "getIssuesForFeature (JArr []) ScoreNull ''complexity'' = Inr []"
  by (simp add: getIssuesForFeature_def)

subsection \<open>Decoding the backend response\<close>

text \<open>
  C4 (amended). With a file selected and a body that parses to a value, the stored
  issues are the \<open>issues\<close> field when that is an array and the empty sequence in every
  other case, so the stored issues are always an array and no error escapes; the stored
  score is the \<open>score\<close> field as it came, whatever its type, and \<^verbatim>\<open>undefined\<close> when the
  object has no such field. (A body that is \<^verbatim>\<open>null\<close> has no fields to read: the score
  keeps the \<^verbatim>\<open>null\<close> of the clearing.)
\<close>

theorem decode_response:
  assumes "file_sel st = Some f"
  shows "issues (analyzeFile st (Json data)) =
           (case getField data ''issues'' of
              Inl e \<Rightarrow> JArr []
            | Inr i \<Rightarrow> if isArray i then i else JArr [])
       \<and> isArray (issues (analyzeFile st (Json data)))
       \<and> score (analyzeFile st (Json data)) =
           (case getField data ''score'' of Inl e \<Rightarrow> JNull | Inr v \<Rightarrow> v)"
  using assms
  by (cases data)
     (simp_all add: analyzeFile_def request_state_def try_response_def alert_def)

theorem decode_response_witness:
  "issues (analyzeFile sample_state
       (Json (JObj [(''score'', JNum 20), (''issues'', JStr ''none'')]))) = JArr []
   \<and> score (analyzeFile sample_state
       (Json (JObj [(''score'', JNum 20), (''issues'', JStr ''none'')]))) = JNum 20
   \<and> issues (analyzeFile sample_state
       (Json (JObj [(''issues'', JArr [JStr ''eval() used'', JNull])])))
       = JArr [JStr ''eval() used'', JNull]
   \<and> score (analyzeFile sample_state
       (Json (JObj [(''issues'', JArr [JStr ''eval() used'', JNull])]))) = JUndefined"
  using decode_response [of sample_state "''app.py''"
      "JObj [(''score'', JNum 20), (''issues'', JStr ''none'')]"]
    decode_response [of sample_state "''app.py''"
      "JObj [(''issues'', JArr [JStr ''eval() used'', JNull])]"]
  by (simp add: sample_state_def)

text \<open>
  A response without a \<open>score\<close> field, and one whose score is the string "high", both
  leave a stored score that is not \<^verbatim>\<open>null\<close>.
\<close>

theorem decode_score_not_null:
  "score (analyzeFile sample_state (Json (JObj [(''issues'', JArr [])]))) \<noteq> JNull
   \<and> score (analyzeFile sample_state
        (Json (JObj [(''score'', JStr ''high''), (''issues'', JArr [])]))) \<noteq> JNull"
  by (simp add: sample_state_def analyzeFile_def request_state_def try_response_def)

subsection \<open>The security lens above the threshold\<close>

text \<open>
  C5. For every issues array and every score that is null or an integer above 35, the
  security lens returns exactly the sanitized issues whose lowercase text contains one
  of "secret", "eval", "exec", "insecure", and that result is a subsequence of the
  issues, in their original relative order; it may be empty.
\<close>

theorem security_filter:
  assumes "sc = ScoreNull \<or> sc = ScoreNum n \<and> 35 < n"
  shows "getIssuesForFeature (JArr xs) sc ''security'' =
           Inr (map JStr
                 (filter (\<lambda>s. list_ex (contains_ci s) [''secret'', ''eval'', ''exec'', ''insecure''])
                   (sanitized xs)))
       \<and> subseq (map JStr
                 (filter (\<lambda>s. list_ex (contains_ci s) [''secret'', ''eval'', ''exec'', ''insecure''])
                   (sanitized xs))) xs"
proof (cases "xs = []")
  case True
  then show ?thesis by (simp add: getIssuesForFeature_def)
next
  case False
  from assms have "\<not> (sc \<noteq> ScoreNull \<and> score_le sc 35)" by auto
  with False show ?thesis
    using security_closed [of xs sc] sanitized_subseq [of _ xs]
    by (simp add: security_words_def)
qed

theorem security_filter_witness:
  "getIssuesForFeature (JArr [JStr ''Found eval() call'', JStr ''unrelated note''])
       (ScoreNum 50) ''security''
     = Inr [JStr ''Found eval() call'']
   \<and> getIssuesForFeature (JArr [JStr ''unrelated note'']) ScoreNull ''security'' = Inr []"
proof -
  have a: "contains_ci ''Found eval() call'' ''eval''"
    by code_simp
  have b: "\<not> list_ex (contains_ci ''unrelated note'') [''secret'', ''eval'', ''exec'', ''insecure'']"
    by code_simp
  show ?thesis
    using security_filter [of "ScoreNum 50" 50 "[JStr ''Found eval() call'', JStr ''unrelated note'']"]
      security_filter [of ScoreNull 0 "[JStr ''unrelated note'']"] a b
    by simp
qed

subsection \<open>The explanation helper\<close>

text \<open>
  C6. For every string, the explanation helper returns one explanation and raises no
  error, and the explanation is the one the ordered rule table gives: the first row
  with a keyword in the lowercase text, the generic fallback when no row has one. In
  particular "Hardcoded password found" gets the credential-leak explanation and the
  empty string gets the fallback.
\<close>

theorem explain_rule_table:
  "explainIssue (JStr s) = Inr (explain_spec s)
   \<and> explainIssue (JStr ''Hardcoded password found'') =
       Inr ''Hardcoded secrets can leak credentials and should be stored securely.''
   \<and> explainIssue (JStr []) = Inr ''This issue may negatively affect security or code quality.''"
proof -
  have "explainIssue (JStr s) = Inr (explain_spec s)"
    by (simp add: explainIssue_def explain_spec_def explain_rules_def explain_fallback_def
        contains_ci_def includes_str_sublist)
  moreover have "explainIssue (JStr ''Hardcoded password found'') =
       Inr ''Hardcoded secrets can leak credentials and should be stored securely.''"
    by code_simp
  moreover have "explainIssue (JStr []) =
       Inr ''This issue may negatively affect security or code quality.''"
    by code_simp
  ultimately show ?thesis by simp
qed

subsection \<open>Sanitization\<close>

text \<open>
  C7. For every lens, every score and every stored issues value, whatever it holds, the
  filter raises no error and every entry it returns is a string.
\<close>

theorem classify_only_strings:
  "\<exists>ys. getIssuesForFeature iss sc feature = Inr ys \<and> list_all (\<lambda>y. typeof y = ''string'') ys"
proof (cases iss)
  case (JArr xs)
  show ?thesis
  proof (cases "xs = []")
    case True
    with JArr show ?thesis by (simp add: getIssuesForFeature_def)
  next
    case False
    consider (sec) "feature = ''security''" | (com) "feature = ''complexity''"
      | (other) "feature \<noteq> ''security''" "feature \<noteq> ''complexity''"
      by blast
    then show ?thesis
    proof cases
      case sec
      show ?thesis
      proof (cases "sc \<noteq> ScoreNull \<and> score_le sc 35")
        case True
        with JArr False sec show ?thesis by (simp add: getIssuesForFeature_def)
      next
        case no: False
        with JArr False sec show ?thesis
          using security_closed [of xs sc] by (simp add: all_strings)
      qed
    next
      case com
      with JArr False show ?thesis
        using complexity_closed [of xs sc] by (simp add: all_strings)
    next
      case other
      with JArr False show ?thesis by (simp add: getIssuesForFeature_def)
    qed
  qed
qed (simp_all add: getIssuesForFeature_def)

theorem classify_only_strings_witness:
  "getIssuesForFeature (JArr [JNull, JNum 3, JStr ''Found eval() call'']) (ScoreNum 50) ''security''
     = Inr [JStr ''Found eval() call'']
   \<and> list_all (\<lambda>y. typeof y = ''string'') [JStr ''Found eval() call'']"
proof -
  have e: "getIssuesForFeature (JArr [JNull, JNum 3, JStr ''Found eval() call''])
             (ScoreNum 50) ''security'' = Inr [JStr ''Found eval() call'']"
    by code_simp
  from classify_only_strings [of "JArr [JNull, JNum 3, JStr ''Found eval() call'']"
      "ScoreNum 50" "''security''"]
  obtain ys where "getIssuesForFeature (JArr [JNull, JNum 3, JStr ''Found eval() call''])
             (ScoreNum 50) ''security'' = Inr ys"
    and "list_all (\<lambda>y. typeof y = ''string'') ys"
    by blast
  with e show ?thesis by simp
qed

subsection \<open>The guard on the stored issues\<close>

text \<open>
  C8. For every lens and every score, when the stored issues value is the empty array
  or is not an array, the filter returns the empty sequence.
\<close>

theorem empty_issues_guard:
  assumes "iss = JArr [] \<or> \<not> isArray iss"
  shows "getIssuesForFeature iss sc feature = Inr []"
  using assms by (cases iss) (auto simp: getIssuesForFeature_def)

theorem empty_issues_guard_witness:
  "getIssuesForFeature (JArr []) (ScoreNum 10) ''security'' = Inr []
   \<and> getIssuesForFeature (JArr []) ScoreNull ''dependency'' = Inr []
   \<and> getIssuesForFeature JNull ScoreNull ''refactor'' = Inr []
   \<and> getIssuesForFeature (JStr ''eval'') (ScoreNum 90) ''complexity'' = Inr []"
  using empty_issues_guard [of "JArr []" "ScoreNum 10" "''security''"]
    empty_issues_guard [of "JArr []" ScoreNull "''dependency''"]
    empty_issues_guard [of JNull ScoreNull "''refactor''"]
    empty_issues_guard [of "JStr ''eval''" "ScoreNum 90" "''complexity''"]
  by simp

subsection \<open>Clearing before the request\<close>

text \<open>
  C9. With a file selected, the state in which the request is made has the score null,
  the issues empty and no active lens, and the response is processed from that state;
  when the fetch or the JSON parse throws, the three cells still hold these cleared
  values after the call.
\<close>

theorem analyze_clears_and_failure_keeps:
  assumes "file_sel st = Some f" and "r = FetchRejected \<or> r = JsonRejected"
  shows "score (request_state st) = JNull \<and> issues (request_state st) = JArr []
         \<and> activeFeature (request_state st) = None
       \<and> analyzeFile st r = (try_response (request_state st) r)\<lparr>loading := False\<rparr>
       \<and> score (analyzeFile st r) = JNull \<and> issues (analyzeFile st r) = JArr []
         \<and> activeFeature (analyzeFile st r) = None"
  using assms by (auto simp: analyzeFile_def request_state_def try_response_def alert_def)

theorem analyze_clears_and_failure_keeps_witness:
  "score (analyzeFile sample_state FetchRejected) = JNull
   \<and> issues (analyzeFile sample_state FetchRejected) = JArr []
   \<and> activeFeature (analyzeFile sample_state FetchRejected) = None
   \<and> score (analyzeFile sample_state JsonRejected) = JNull
   \<and> issues (analyzeFile sample_state JsonRejected) = JArr []
   \<and> activeFeature (analyzeFile sample_state JsonRejected) = None"
proof -
  have f: "file_sel sample_state = Some ''app.py''"
    by (simp add: sample_state_def)
  from analyze_clears_and_failure_keeps [OF f, of FetchRejected]
    analyze_clears_and_failure_keeps [OF f, of JsonRejected]
  show ?thesis by blast
qed

subsection \<open>Unrecognized lenses\<close>

text \<open>
  C10. For every lens outside "security", "complexity", "dependency" and "refactor",
  and for every stored issues value and score, the filter returns the empty sequence
  and raises no error.
\<close>

theorem unknown_lens_empty:
  assumes "feature \<notin> {''security'', ''complexity'', ''dependency'', ''refactor''}"
  shows "getIssuesForFeature iss sc feature = Inr []"
  using assms by (cases iss) (auto simp: getIssuesForFeature_def)

theorem unknown_lens_empty_witness:
  "getIssuesForFeature (JArr [JStr ''x'']) (ScoreNum 10) ''bogus-lens'' = Inr []"
  using unknown_lens_empty [of "''bogus-lens''" "JArr [JStr ''x'']" "ScoreNum 10"] by simp

end
